theory Spec2Isabelle
  imports Main
begin

section \<open>The environment of \<^verbatim>\<open>train/train.py\<close>\<close>

text \<open>
  The script \<^verbatim>\<open>train.py\<close> prepares log directories and supervises two worker
  processes. Everything it does is an effect on its surroundings, so the surroundings are
  modelled first: path strings, a file tree, and a log of the process operations.

  What is outside the model: logging calls (they change nothing the script reads), symbolic
  links, and the components \<^verbatim>\<open>.\<close> and \<^verbatim>\<open>..\<close> of a path (they are treated as
  ordinary names). Of permissions, the one refusal the script provides for is modelled:
  that of unlinking the socket file, whose \<^verbatim>\<open>OSError\<close> it catches. \<^verbatim>\<open>Process.start\<close>,
  \<^verbatim>\<open>join\<close> and \<^verbatim>\<open>kill\<close> are taken to return.
\<close>

subsection \<open>Paths\<close>

text \<open>
  \<^verbatim>\<open>os.path.join(a, b)\<close> of \<^verbatim>\<open>posixpath\<close>, for two arguments: an absolute second
  argument replaces the first; otherwise the separator is inserted unless the first
  argument is empty or already ends with one.
\<close>

definition path_join :: "string \<Rightarrow> string \<Rightarrow> string" where
  "path_join a b =
     (if b \<noteq> [] \<and> hd b = CHR ''/'' then b
      else if a = [] \<or> last a = CHR ''/'' then a @ b
      else a @ ''/'' @ b)"

text \<open>\<^verbatim>\<open>p.split('/')\<close>: the pieces of a string between separators.\<close>

fun split_sep :: "string \<Rightarrow> string list" where
  "split_sep [] = [] # []"
| "split_sep (c # cs) =
     (if c = CHR ''/'' then [] # split_sep cs
      else (case split_sep cs of
              [] \<Rightarrow> [c] # []
            | x # xs \<Rightarrow> (c # x) # xs))"

text \<open>
  How the operating system reads a path: as the list of its non-empty components. An
  absolute path starts with the component \<open>''/''\<close>, so that the root directory is one
  child of the tree's top node and the working directory is the top node itself.
\<close>

definition components :: "string \<Rightarrow> string list" where
  "components p =
     (if p \<noteq> [] \<and> hd p = CHR ''/'' then [''/''] else [])
     @ filter (\<lambda>s. s \<noteq> []) (split_sep p)"

subsection \<open>The file tree\<close>

datatype tree = File | Dir "string \<Rightarrow> tree option"

datatype os_error =
    FileNotFoundError
  | NotADirectoryError
  | FileExistsError
  | IsADirectoryError
  | PermissionError

fun lookup :: "tree \<Rightarrow> string list \<Rightarrow> tree option" where
  "lookup t [] = Some t"
| "lookup File (c # cs) = None"
| "lookup (Dir m) (c # cs) = (case m c of None \<Rightarrow> None | Some t \<Rightarrow> lookup t cs)"

text \<open>
  Why a path does not resolve: a regular file stands where a directory is needed
  (\<^verbatim>\<open>ENOTDIR\<close>), or an entry is missing (\<^verbatim>\<open>ENOENT\<close>).
\<close>

fun file_on_way :: "tree \<Rightarrow> string list \<Rightarrow> bool" where
  "file_on_way t [] = False"
| "file_on_way File (c # cs) = True"
| "file_on_way (Dir m) (c # cs) = (case m c of None \<Rightarrow> False | Some t \<Rightarrow> file_on_way t cs)"

definition unresolved :: "tree \<Rightarrow> string list \<Rightarrow> os_error" where
  "unresolved t p = (if file_on_way t p then NotADirectoryError else FileNotFoundError)"

text \<open>Unlinking the entry at a path; a path that does not resolve leaves the tree alone.\<close>

fun remove_at :: "tree \<Rightarrow> string list \<Rightarrow> tree" where
  "remove_at t [] = t"
| "remove_at File (c # cs) = File"
| "remove_at (Dir m) [c] = Dir (m(c := None))"
| "remove_at (Dir m) (c # d # cs) =
     (case m c of None \<Rightarrow> Dir m | Some t \<Rightarrow> Dir (m(c \<mapsto> remove_at t (d # cs))))"

text \<open>
  Creating a directory and its missing ancestors. A regular file on the way is
  \<^verbatim>\<open>NotADirectoryError\<close>, a regular file at the end is \<^verbatim>\<open>FileExistsError\<close>
  (\<^verbatim>\<open>exist_ok\<close> accepts an existing directory only); in both cases nothing has been
  created, since the file lies in the part of the path that already exists.
\<close>

fun mkdirs_at :: "tree \<Rightarrow> string list \<Rightarrow> os_error + tree" where
  "mkdirs_at File [] = Inl FileExistsError"
| "mkdirs_at (Dir m) [] = Inr (Dir m)"
| "mkdirs_at File (c # cs) = Inl NotADirectoryError"
| "mkdirs_at (Dir m) (c # cs) =
     (case mkdirs_at (case m c of None \<Rightarrow> Dir Map.empty | Some t \<Rightarrow> t) cs of
        Inl e \<Rightarrow> Inl e
      | Inr t' \<Rightarrow> Inr (Dir (m(c \<mapsto> t'))))"

text \<open>\<^verbatim>\<open>os.path.exists(p)\<close>. The empty string names nothing.\<close>

definition path_exists :: "tree \<Rightarrow> string \<Rightarrow> bool" where
  "path_exists t p = (p \<noteq> [] \<and> lookup t (components p) \<noteq> None)"

text \<open>\<^verbatim>\<open>shutil.rmtree(p)\<close>: removes a directory with everything below it.\<close>

definition rmtree :: "tree \<Rightarrow> string \<Rightarrow> os_error + tree" where
  "rmtree t p =
     (if p = [] then Inl FileNotFoundError
      else (case lookup t (components p) of
              None \<Rightarrow> Inl (unresolved t (components p))
            | Some File \<Rightarrow> Inl NotADirectoryError
            | Some (Dir m) \<Rightarrow> Inr (remove_at t (components p))))"

text \<open>\<^verbatim>\<open>os.makedirs(p, exist_ok=True)\<close>.\<close>

definition makedirs :: "tree \<Rightarrow> string \<Rightarrow> os_error + tree" where
  "makedirs t p = (if p = [] then Inl FileNotFoundError else mkdirs_at t (components p))"

text \<open>
  \<^verbatim>\<open>os.remove(p)\<close>: unlinks a file, and refuses a directory. The operating system may
  refuse to unlink a file that is there (a socket left in \<^verbatim>\<open>/tmp\<close> by another user,
  say): \<open>denied\<close> is the set of the paths it refuses.
\<close>

definition os_remove :: "string set \<Rightarrow> tree \<Rightarrow> string \<Rightarrow> os_error + tree" where
  "os_remove denied t p =
     (if p = [] then Inl FileNotFoundError
      else (case lookup t (components p) of
              None \<Rightarrow> Inl (unresolved t (components p))
            | Some File \<Rightarrow>
                if p \<in> denied then Inl PermissionError
                else Inr (remove_at t (components p))
            | Some (Dir m) \<Rightarrow> Inl IsADirectoryError))"

subsection \<open>Flags, processes and the world\<close>

text \<open>
  The attributes of the \<^verbatim>\<open>argparse\<close> namespace that the script reads or writes. The
  options contributed by the collaborator modules are not read here.
\<close>

record flags =
  mode :: string
  base_logdir :: string
  logdir :: string
  savedir :: string
  checkpoint :: string
  traced_model :: string
  address :: string
  disable_cuda :: bool
  cc_env_mode :: string

datatype proc = Polybeast | Pantheon_env

text \<open>
  The operations on the surroundings that the script performs outside
  \<^verbatim>\<open>init_logdirs\<close>, in the order in which it performs them. \<open>Started p f\<close> is
  \<^verbatim>\<open>mp.Process(target=p.main, args=(f,)).start()\<close>: the child receives the flags as
  they are at that moment.
\<close>

datatype event =
    Removed string
  | RemoveFailed string os_error
  | Started proc flags
  | Joined proc
  | Killed proc

text \<open>
  The world: the file tree, the log, and the paths that the operating system refuses to
  unlink for this process.
\<close>

record world =
  fs :: tree
  events :: "event list"
  protected :: "string set"

datatype error = AssertionError string | RuntimeError string | OSError os_error

text \<open>
  What the worker processes do to the file tree is not in this repository: it is the
  parameter \<open>env\<close>, which says how the tree changes around each process operation.
\<close>

definition emit :: "(event \<Rightarrow> tree \<Rightarrow> tree) \<Rightarrow> event \<Rightarrow> world \<Rightarrow> world" where
  "emit env ev w = w\<lparr>fs := env ev (fs w), events := events w @ [ev]\<rparr>"

text \<open>
  \<^verbatim>\<open>try: os.remove(address)  except OSError: pass\<close>
\<close>

definition remove_ignoring :: "world \<Rightarrow> string \<Rightarrow> world" where
  "remove_ignoring w p =
     (case os_remove (protected w) (fs w) p of
        Inl e \<Rightarrow> w\<lparr>events := events w @ [RemoveFailed p e]\<rparr>
      | Inr t \<Rightarrow> w\<lparr>fs := t, events := events w @ [Removed p]\<rparr>)"

section \<open>The script\<close>

text \<open>
  Every function takes the flags object and returns it as it is when the function
  returns or raises: the namespace is mutated in place, so the caller sees the
  assignments made before an exception too. The first component of a result is the
  exception that ended the call, if any.

  \<^verbatim>\<open>init_logdirs\<close> (lines 41 to 58 of \<^verbatim>\<open>train.py\<close>) works on the file tree
  alone. An exception of \<^verbatim>\<open>shutil.rmtree\<close> or \<^verbatim>\<open>os.makedirs\<close> is not caught, so
  it ends the call with the tree as the calls before it left it. The \<^verbatim>\<open>assert\<close>
  statement is executed (the interpreter is not run with \<^verbatim>\<open>-O\<close>).
\<close>

definition init_logdirs :: "flags \<Rightarrow> tree \<Rightarrow> error option \<times> flags \<times> tree" where
  "init_logdirs flags0 t0 =
     (let flags1 = flags0\<lparr>logdir := path_join (base_logdir flags0) (mode flags0)\<rparr>;
          flags2 = flags1\<lparr>savedir := path_join (logdir flags1) ''torchbeast''\<rparr>
      in case (if mode flags2 \<noteq> ''train'' \<and> path_exists t0 (logdir flags2)
               then rmtree t0 (logdir flags2) else Inr t0) of
           Inl e \<Rightarrow> (Some (OSError e), flags2, t0)
         | Inr t1 \<Rightarrow>
        (case makedirs t1 (logdir flags2) of
           Inl e \<Rightarrow> (Some (OSError e), flags2, t1)
         | Inr t2 \<Rightarrow>
        (case makedirs t2 (savedir flags2) of
           Inl e \<Rightarrow> (Some (OSError e), flags2, t2)
         | Inr t3 \<Rightarrow>
        (let flags3 = flags2\<lparr>checkpoint := path_join (base_logdir flags2) ''checkpoint.tar''\<rparr>;
             flags4 = flags3\<lparr>traced_model := path_join (base_logdir flags3) ''traced_model.pt''\<rparr>
         in if mode flags4 \<noteq> ''train'' \<and> \<not> path_exists t3 (checkpoint flags4)
            then (Some (AssertionError
                    (''Checkpoint '' @ checkpoint flags4 @ '' missing in '' @ mode flags4 @ '' mode'')),
                  flags4, t3)
            else (None, flags4, t3)))))"

text \<open>
  \<^verbatim>\<open>run_remote\<close> (lines 61 to 93). Both processes are started before either is
  waited for.
\<close>

definition run_remote ::
  "flags \<Rightarrow> bool \<Rightarrow> (event \<Rightarrow> tree \<Rightarrow> tree) \<Rightarrow> world \<Rightarrow> error option \<times> flags \<times> world" where
  "run_remote flags0 train env w0 =
     (let flags1 = flags0\<lparr>mode := (if train then ''train'' else ''test'')\<rparr>
      in case init_logdirs flags1 (fs w0) of
           (Some e, flags2, t) \<Rightarrow> (Some e, flags2, w0\<lparr>fs := t\<rparr>)
         | (None, flags2, t) \<Rightarrow>
        (let addr = ''/tmp/rl_server_path'';
             w1 = remove_ignoring (w0\<lparr>fs := t\<rparr>) addr;
             flags3 = flags2\<lparr>address := ''unix:'' @ addr\<rparr>;
             flags4 = flags3\<lparr>disable_cuda := (\<not> train)\<rparr>;
             flags5 = flags4\<lparr>cc_env_mode := ''remote''\<rparr>;
             w2 = emit env (Started Polybeast flags5) w1;
             w3 = emit env (Started Pantheon_env flags5) w2;
             w4 = (if train
                   then emit env (Killed Pantheon_env) (emit env (Joined Polybeast) w3)
                   else emit env (Killed Polybeast) (emit env (Joined Pantheon_env) w3))
         in (None, flags5, w4)))"

text \<open>\<^verbatim>\<open>trace\<close> (lines 113 to 121).\<close>

definition trace ::
  "flags \<Rightarrow> (event \<Rightarrow> tree \<Rightarrow> tree) \<Rightarrow> world \<Rightarrow> error option \<times> flags \<times> world" where
  "trace flags0 env w0 =
     (let flags1 = flags0\<lparr>mode := ''trace''\<rparr>
      in case init_logdirs flags1 (fs w0) of
           (Some e, flags2, t) \<Rightarrow> (Some e, flags2, w0\<lparr>fs := t\<rparr>)
         | (None, flags2, t) \<Rightarrow>
        (let w1 = emit env (Started Polybeast flags2) (w0\<lparr>fs := t\<rparr>);
             w2 = emit env (Joined Polybeast) w1
         in (None, flags2, w2)))"

text \<open>
  \<^verbatim>\<open>test_local\<close> (lines 96 to 110). \<^verbatim>\<open>trace(copy.deepcopy(flags))\<close>:
  \<open>trace\<close> works on a value of its own, and the flags it returns are dropped; its
  effects on the world, and an exception, are kept.
\<close>

definition test_local ::
  "flags \<Rightarrow> (event \<Rightarrow> tree \<Rightarrow> tree) \<Rightarrow> world \<Rightarrow> error option \<times> flags \<times> world" where
  "test_local flags0 env w0 =
     (let flags1 = flags0\<lparr>mode := ''test''\<rparr>
      in case init_logdirs flags1 (fs w0) of
           (Some e, flags2, t) \<Rightarrow> (Some e, flags2, w0\<lparr>fs := t\<rparr>)
         | (None, flags2, t) \<Rightarrow>
        (case (if \<not> path_exists t (traced_model flags2)
               then (case trace flags2 env (w0\<lparr>fs := t\<rparr>) of (r, copied, w) \<Rightarrow> (r, w))
               else (None, w0\<lparr>fs := t\<rparr>)) of
           (Some e, w1) \<Rightarrow> (Some e, flags2, w1)
         | (None, w1) \<Rightarrow>
        (let flags3 = flags2\<lparr>cc_env_mode := ''local''\<rparr>;
             w2 = emit env (Started Pantheon_env flags3) w1;
             w3 = emit env (Joined Pantheon_env) w2
         in (None, flags3, w3))))"

text \<open>
  \<^verbatim>\<open>main\<close> (lines 124 to 148). The mode is read once, before any function
  overwrites it.
\<close>

definition main ::
  "flags \<Rightarrow> (event \<Rightarrow> tree \<Rightarrow> tree) \<Rightarrow> world \<Rightarrow> error option \<times> flags \<times> world" where
  "main flags0 env w0 =
     (let m = mode flags0
      in if m = ''train'' then
           (case run_remote flags0 True env w0 of
              (Some e, flags1, w1) \<Rightarrow> (Some e, flags1, w1)
            | (None, flags1, w1) \<Rightarrow>
           (case trace flags1 env w1 of
              (Some e, flags2, w2) \<Rightarrow> (Some e, flags2, w2)
            | (None, flags2, w2) \<Rightarrow> run_remote flags2 False env w2))
         else if m = ''test'' then run_remote flags0 False env w0
         else if m = ''test_local'' then test_local flags0 env w0
         else if m = ''trace'' then trace flags0 env w0
         else (Some (RuntimeError (''Unknown mode '' @ m)), flags0, w0))"

text \<open>The processes started in a log, in order.\<close>

fun started :: "event list \<Rightarrow> proc list" where
  "started [] = []"
| "started (Started p f # es) = p # started es"
| "started (e # es) = started es"

subsection \<open>Concrete inputs\<close>

text \<open>
  Flags as the command line gives them (only \<^verbatim>\<open>mode\<close> and \<^verbatim>\<open>base_logdir\<close> are
  read before they are written), and three file trees: one after a training run, with a
  checkpoint, old test logs and a stale socket file, one without a checkpoint, and one
  with a checkpoint and a traced model. In \<open>locked_world\<close> the stale socket file may
  not be unlinked.
\<close>

definition example_flags :: "string \<Rightarrow> flags" where
  "example_flags m =
     \<lparr>mode = m, base_logdir = ''logs'', logdir = [], savedir = [], checkpoint = [],
      traced_model = [], address = [], disable_cuda = False, cc_env_mode = []\<rparr>"

definition trained_tree :: tree where
  "trained_tree =
     Dir [''logs'' \<mapsto> Dir [''checkpoint.tar'' \<mapsto> File,
                            ''test'' \<mapsto> Dir [''old.log'' \<mapsto> File]],
          ''/'' \<mapsto> Dir [''tmp'' \<mapsto> Dir [''rl_server_path'' \<mapsto> File]]]"

definition untrained_tree :: tree where
  "untrained_tree = Dir [''logs'' \<mapsto> Dir [''test'' \<mapsto> Dir [''old.log'' \<mapsto> File]]]"

definition traced_tree :: tree where
  "traced_tree =
     Dir [''logs'' \<mapsto> Dir [''checkpoint.tar'' \<mapsto> File, ''traced_model.pt'' \<mapsto> File]]"

definition no_effect :: "event \<Rightarrow> tree \<Rightarrow> tree" where
  "no_effect ev t = t"

definition example_world :: "tree \<Rightarrow> world" where
  "example_world t = \<lparr>fs = t, events = [], protected = {}\<rparr>"

definition locked_world :: world where
  "locked_world = \<lparr>fs = trained_tree, events = [], protected = {''/tmp/rl_server_path''}\<rparr>"

section \<open>Facts about paths\<close>

lemma split_sep_nonempty: "split_sep p \<noteq> []"
  by (induction p) (auto split: list.splits)

lemma split_sep_append: "split_sep (xs @ CHR ''/'' # ys) = split_sep xs @ split_sep ys"
  by (induction xs) (auto split: list.splits simp: split_sep_nonempty)

lemma split_sep_name: "CHR ''/'' \<notin> set n \<Longrightarrow> split_sep n = [n]"
  by (induction n) (auto split: list.splits)

lemma components_name: "n \<noteq> [] \<Longrightarrow> CHR ''/'' \<notin> set n \<Longrightarrow> components n = [n]"
  by (cases n) (auto simp: components_def split_sep_name)

text \<open>Joining a plain name to a path appends one component.\<close>

lemma components_join:
  assumes "n \<noteq> []" "CHR ''/'' \<notin> set n"
  shows "components (path_join a n) = components a @ [n]"
proof -
  from assms have hd: "hd n \<noteq> CHR ''/''" by (cases n) auto
  show ?thesis
  proof (cases "a = []")
    case True
    with assms hd show ?thesis
      by (simp add: path_join_def components_name) (simp add: components_def)
  next
    case False
    show ?thesis
    proof (cases "last a = CHR ''/''")
      case True
      with False obtain b where a: "a = b @ ''/''"
        by (metis append_butlast_last_id)
      have "split_sep (a @ n) = split_sep b @ [n]"
        using assms by (simp add: a split_sep_append split_sep_name)
      moreover have "split_sep a = split_sep b @ ([] # [])"
        by (simp add: a split_sep_append)
      moreover have "hd (a @ n) = hd a" using False by simp
      ultimately show ?thesis using False True assms hd
        by (simp add: path_join_def components_def)
    next
      case True': False
      have "split_sep (a @ ''/'' @ n) = split_sep a @ [n]"
        using assms by (simp add: split_sep_append split_sep_name)
      moreover have "hd (a @ ''/'' @ n) = hd a" using False by simp
      ultimately show ?thesis using False True' assms hd
        by (simp add: path_join_def components_def)
    qed
  qed
qed

lemma path_join_nonempty: "n \<noteq> [] \<Longrightarrow> path_join a n \<noteq> []"
  by (simp add: path_join_def)

lemma components_savedir:
  "components (path_join lg ''torchbeast'') = components lg @ [''torchbeast'']"
  by (rule components_join) simp_all

lemma components_nonempty: "p \<noteq> [] \<Longrightarrow> components p \<noteq> []"
proof (cases p)
  case Nil
  then show "p \<noteq> [] \<Longrightarrow> ?thesis" by simp
next
  case (Cons c cs)
  then show ?thesis
    by (cases "split_sep cs") (auto simp: components_def split_sep_nonempty)
qed

section \<open>Facts about the file tree\<close>

lemma lookup_append:
  "lookup t (p @ q) = (case lookup t p of None \<Rightarrow> None | Some u \<Rightarrow> lookup u q)"
  by (induction t p rule: lookup.induct) (auto split: option.splits)

lemma lookup_empty_dir: "p \<noteq> [] \<Longrightarrow> lookup (Dir Map.empty) p = None"
  by (cases p) auto







lemma remove_at_gone: "p \<noteq> [] \<Longrightarrow> lookup (remove_at t p) p = None"
  by (induction t p rule: remove_at.induct) (auto split: option.splits)

lemma mkdirs_at_fresh_empty:
  "lookup t p = None \<Longrightarrow> mkdirs_at t p = Inr t' \<Longrightarrow> lookup t' p = Some (Dir Map.empty)"
proof (induction p arbitrary: t t')
  case Nil
  then show ?case by simp
next
  case (Cons c cs)
  from Cons.prems obtain m where t: "t = Dir m" by (cases t) auto
  define s where "s = (case m c of None \<Rightarrow> Dir Map.empty | Some x \<Rightarrow> x)"
  from Cons.prems t obtain s' where s': "mkdirs_at s cs = Inr s'" "t' = Dir (m(c \<mapsto> s'))"
    by (auto simp: s_def split: sum.splits)
  show ?case
  proof (cases cs)
    case Nil
    with Cons.prems t s' show ?thesis by (auto simp: s_def split: option.splits)
  next
    case (Cons d ds)
    with Cons.prems t have "lookup s cs = None"
      by (auto simp: s_def split: option.splits)
    from Cons.IH [OF this s'(1)] s'(2) show ?thesis by simp
  qed
qed

lemma mkdirs_at_child:
  "lookup t p = Some (Dir m) \<Longrightarrow> m n = None \<Longrightarrow>
   \<exists>t'. mkdirs_at t (p @ [n]) = Inr t' \<and> lookup t' p = Some (Dir (m(n \<mapsto> Dir Map.empty)))"
  by (induction t p rule: mkdirs_at.induct) (auto split: sum.splits option.splits)




text \<open>
  Creating or removing below one child of a directory leaves the other children alone.
\<close>

lemma mkdirs_at_sibling:
  "mkdirs_at t (b @ n # r) = Inr t' \<Longrightarrow> k \<noteq> n \<Longrightarrow> lookup t' (b @ [k]) = lookup t (b @ [k])"
proof (induction b arbitrary: t t')
  case Nil
  then show ?case by (cases t) (auto split: sum.splits)
next
  case (Cons c cs)
  from Cons.prems obtain m where t: "t = Dir m" by (cases t) auto
  define s where "s = (case m c of None \<Rightarrow> Dir Map.empty | Some x \<Rightarrow> x)"
  from Cons.prems t obtain s' where s': "mkdirs_at s (cs @ n # r) = Inr s'" "t' = Dir (m(c \<mapsto> s'))"
    by (auto simp: s_def split: sum.splits)
  from Cons.IH [OF s'(1) Cons.prems(2)] have "lookup s' (cs @ [k]) = lookup s (cs @ [k])" .
  moreover have "lookup (Dir Map.empty) (cs @ [k]) = None" by (simp add: lookup_empty_dir)
  ultimately show ?case using t s' by (auto simp: s_def split: option.splits)
qed

lemma remove_at_Cons:
  "q \<noteq> [] \<Longrightarrow> remove_at (Dir m) (c # q) =
     (case m c of None \<Rightarrow> Dir m | Some t \<Rightarrow> Dir (m(c \<mapsto> remove_at t q)))"
  by (cases q) auto

lemma remove_at_sibling:
  "k \<noteq> n \<Longrightarrow> lookup (remove_at t (b @ n # r)) (b @ [k]) = lookup t (b @ [k])"
proof (induction b arbitrary: t)
  case Nil
  then show ?case by (cases "(t, n # r)" rule: remove_at.cases) (auto split: option.splits)
next
  case (Cons c cs)
  show ?case
  proof (cases t)
    case File
    then show ?thesis by simp
  next
    case (Dir m)
    with Cons show ?thesis by (simp add: remove_at_Cons split: option.splits)
  qed
qed

lemma rmtree_Inr:
  "rmtree t p = Inr t1 \<Longrightarrow> p \<noteq> [] \<and> (\<exists>m. lookup t (components p) = Some (Dir m)) \<and> t1 = remove_at t (components p)"
  by (auto simp: rmtree_def split: if_splits option.splits tree.splits)

lemma makedirs_Inr: "makedirs t p = Inr t1 \<Longrightarrow> p \<noteq> [] \<and> mkdirs_at t (components p) = Inr t1"
  by (auto simp: makedirs_def split: if_splits)

section \<open>Facts about \<^verbatim>\<open>init_logdirs\<close>\<close>

lemma init_logdirs_unfold:
  "init_logdirs flags t =
     (let lg = path_join (base_logdir flags) (mode flags);
          sv = path_join lg ''torchbeast'';
          ck = path_join (base_logdir flags) ''checkpoint.tar'';
          tm = path_join (base_logdir flags) ''traced_model.pt'';
          f2 = flags\<lparr>logdir := lg, savedir := sv\<rparr>
      in case (if mode flags \<noteq> ''train'' \<and> path_exists t lg then rmtree t lg else Inr t) of
           Inl e \<Rightarrow> (Some (OSError e), f2, t)
         | Inr t1 \<Rightarrow>
        (case makedirs t1 lg of
           Inl e \<Rightarrow> (Some (OSError e), f2, t1)
         | Inr t2 \<Rightarrow>
        (case makedirs t2 sv of
           Inl e \<Rightarrow> (Some (OSError e), f2, t2)
         | Inr t3 \<Rightarrow>
           (if mode flags \<noteq> ''train'' \<and> \<not> path_exists t3 ck
            then Some (AssertionError (''Checkpoint '' @ ck @ '' missing in '' @ mode flags @ '' mode''))
            else None,
            f2\<lparr>checkpoint := ck, traced_model := tm\<rparr>, t3))))"
  by (simp add: init_logdirs_def Let_def split: sum.splits)

lemma init_logdirs_cases [consumes 1, case_names rmtree_failed logdir_failed savedir_failed finished]:
  fixes flags :: flags
  defines "lg \<equiv> path_join (base_logdir flags) (mode flags)"
  defines "sv \<equiv> path_join lg ''torchbeast''"
  defines "ck \<equiv> path_join (base_logdir flags) ''checkpoint.tar''"
  defines "tm \<equiv> path_join (base_logdir flags) ''traced_model.pt''"
  defines "f2 \<equiv> flags\<lparr>logdir := lg, savedir := sv\<rparr>"
  assumes run: "init_logdirs flags t = (r, flags', t')"
  obtains
    (rmtree_failed) e where
      "mode flags \<noteq> ''train''" "path_exists t lg" "rmtree t lg = Inl e"
      "r = Some (OSError e)" "flags' = f2" "t' = t"
  | (logdir_failed) e where
      "(if mode flags \<noteq> ''train'' \<and> path_exists t lg then rmtree t lg else Inr t) = Inr t'"
      "makedirs t' lg = Inl e"
      "r = Some (OSError e)" "flags' = f2"
  | (savedir_failed) t1 e where
      "(if mode flags \<noteq> ''train'' \<and> path_exists t lg then rmtree t lg else Inr t) = Inr t1"
      "makedirs t1 lg = Inr t'" "makedirs t' sv = Inl e"
      "r = Some (OSError e)" "flags' = f2"
  | (finished) t1 t2 where
      "(if mode flags \<noteq> ''train'' \<and> path_exists t lg then rmtree t lg else Inr t) = Inr t1"
      "makedirs t1 lg = Inr t2" "makedirs t2 sv = Inr t'"
      "flags' = f2\<lparr>checkpoint := ck, traced_model := tm\<rparr>"
      "r = (if mode flags \<noteq> ''train'' \<and> \<not> path_exists t' ck
            then Some (AssertionError (''Checkpoint '' @ ck @ '' missing in '' @ mode flags @ '' mode''))
            else None)"
proof -
  define c where "c = (if mode flags \<noteq> ''train'' \<and> path_exists t lg then rmtree t lg else Inr t)"
  have unf: "init_logdirs flags t =
     (case c of
        Inl e \<Rightarrow> (Some (OSError e), f2, t)
      | Inr t1 \<Rightarrow>
     (case makedirs t1 lg of
        Inl e \<Rightarrow> (Some (OSError e), f2, t1)
      | Inr t2 \<Rightarrow>
     (case makedirs t2 sv of
        Inl e \<Rightarrow> (Some (OSError e), f2, t2)
      | Inr t3 \<Rightarrow>
        (if mode flags \<noteq> ''train'' \<and> \<not> path_exists t3 ck
         then Some (AssertionError (''Checkpoint '' @ ck @ '' missing in '' @ mode flags @ '' mode''))
         else None,
         f2\<lparr>checkpoint := ck, traced_model := tm\<rparr>, t3))))"
    unfolding init_logdirs_unfold Let_def c_def lg_def sv_def ck_def tm_def f2_def by (rule refl)
  show thesis
  proof (cases c)
    case (Inl e)
    with run unf have "r = Some (OSError e)" "flags' = f2" "t' = t"
      by simp_all
    moreover from Inl have "mode flags \<noteq> ''train''" "path_exists t lg" "rmtree t lg = Inl e"
      by (simp_all add: c_def split: if_splits)
    ultimately show thesis by (intro rmtree_failed [of e]) simp_all
  next
    case c: (Inr t1)
    show thesis
    proof (cases "makedirs t1 lg")
      case (Inl e)
      with run unf c have "r = Some (OSError e)" "flags' = f2" "t' = t1"
        by simp_all
      with c Inl show thesis
        by (intro logdir_failed [of e]) (simp_all add: c_def)
    next
      case l: (Inr t2)
      show thesis
      proof (cases "makedirs t2 sv")
        case (Inl e)
        with run unf c l have "r = Some (OSError e)" "flags' = f2" "t' = t2"
          by simp_all
        with c l Inl show thesis
          by (intro savedir_failed [of t1 e]) (simp_all add: c_def)
      next
        case s: (Inr t3)
        with run unf c l have "t' = t3" "flags' = f2\<lparr>checkpoint := ck, traced_model := tm\<rparr>"
          "r = (if mode flags \<noteq> ''train'' \<and> \<not> path_exists t3 ck
            then Some (AssertionError (''Checkpoint '' @ ck @ '' missing in '' @ mode flags @ '' mode''))
            else None)"
          by auto
        with c l s show thesis
          by (intro finished [of t1 t2]) (simp_all add: c_def)
      qed
    qed
  qed
qed


lemma cleaned_absent:
  assumes "(if mode flags \<noteq> ''train'' \<and> path_exists t lg then rmtree t lg else Inr t) = Inr t1"
    and "mode flags \<noteq> ''train''"
  shows "\<not> path_exists t1 lg"
proof (cases "path_exists t lg")
  case True
  with assms have "rmtree t lg = Inr t1" by simp
  from rmtree_Inr [OF this] have "lg \<noteq> []" "t1 = remove_at t (components lg)" by simp_all
  then show ?thesis by (simp add: path_exists_def remove_at_gone components_nonempty)
next
  case False
  with assms show ?thesis by simp
qed


text \<open>After a clean start, the log directory holds the empty save directory and nothing else.\<close>

lemma fresh_logdir:
  assumes "\<not> path_exists t1 lg" "makedirs t1 lg = Inr t2"
  shows "\<exists>t3. makedirs t2 (path_join lg ''torchbeast'') = Inr t3
    \<and> lookup t3 (components lg) = Some (Dir [''torchbeast'' \<mapsto> Dir Map.empty])
    \<and> lookup t3 (components (path_join lg ''torchbeast'')) = Some (Dir Map.empty)"
proof -
  from makedirs_Inr [OF assms(2)] have lg: "lg \<noteq> []" "mkdirs_at t1 (components lg) = Inr t2"
    by simp_all
  with assms(1) have "lookup t1 (components lg) = None" by (simp add: path_exists_def)
  from mkdirs_at_fresh_empty [OF this lg(2)]
  have "lookup t2 (components lg) = Some (Dir Map.empty)" .
  from mkdirs_at_child [OF this, of "''torchbeast''"]
  obtain t3 where t3: "mkdirs_at t2 (components lg @ [''torchbeast'']) = Inr t3"
    "lookup t3 (components lg) = Some (Dir [''torchbeast'' \<mapsto> Dir Map.empty])"
    by auto
  then have "lookup t3 (components lg @ [''torchbeast'']) = Some (Dir Map.empty)"
    by (simp add: lookup_append)
  with t3 show ?thesis
    by (simp add: makedirs_def components_savedir path_join_nonempty)
qed

lemma init_logdirs_fresh:
  assumes run: "init_logdirs flags t = (r, flags', t')"
    and "mode flags \<noteq> ''train''" "\<forall>e. r \<noteq> Some (OSError e)"
  shows "lookup t' (components (logdir flags')) = Some (Dir [''torchbeast'' \<mapsto> Dir Map.empty])
    \<and> lookup t' (components (savedir flags')) = Some (Dir Map.empty)"
  using run
proof (cases rule: init_logdirs_cases)
  case (finished t1 t2)
  from cleaned_absent [OF finished(1) assms(2)] finished(2) fresh_logdir finished(3)
  have "lookup t' (components (path_join (base_logdir flags) (mode flags)))
       = Some (Dir [''torchbeast'' \<mapsto> Dir Map.empty])
     \<and> lookup t' (components (path_join (path_join (base_logdir flags) (mode flags)) ''torchbeast''))
       = Some (Dir Map.empty)"
    by fastforce
  with finished(4) show ?thesis by simp
qed (use assms in simp_all)


lemma cleaned_sibling:
  assumes "(if c \<and> path_exists t lg then rmtree t lg else Inr t) = Inr t1"
    and "components lg = b @ n # rest" "k \<noteq> n"
  shows "lookup t1 (b @ [k]) = lookup t (b @ [k])"
proof (cases "c \<and> path_exists t lg")
  case True
  with assms(1) have "rmtree t lg = Inr t1" by simp
  from rmtree_Inr [OF this] assms(2,3) show ?thesis by (simp add: remove_at_sibling)
next
  case False
  with assms(1) show ?thesis by auto
qed

lemma makedirs_sibling:
  assumes "makedirs t lg = Inr t1" "components lg = b @ n # rest" "k \<noteq> n"
  shows "lookup t1 (b @ [k]) = lookup t (b @ [k])"
  using makedirs_Inr [OF assms(1)] assms(2,3) by (auto dest: mkdirs_at_sibling)

text \<open>
  With a plain name for the mode, the directory work of \<^verbatim>\<open>init_logdirs\<close> stays below
  \<^verbatim>\<open>base_logdir/mode\<close>: the other entries of \<^verbatim>\<open>base_logdir\<close> are as before.
\<close>

lemma init_logdirs_sibling:
  assumes run: "init_logdirs flags t = (r, flags', t')"
    and m: "mode flags \<noteq> []" "CHR ''/'' \<notin> set (mode flags)"
    and k: "k \<noteq> []" "CHR ''/'' \<notin> set k" "k \<noteq> mode flags"
  shows "lookup t' (components (path_join (base_logdir flags) k))
       = lookup t (components (path_join (base_logdir flags) k))"
proof -
  let ?b = "components (base_logdir flags)"
  let ?lg = "path_join (base_logdir flags) (mode flags)"
  have lg: "components ?lg = ?b @ mode flags # []"
    using m by (simp add: components_join)
  have sv: "components (path_join ?lg ''torchbeast'') = ?b @ mode flags # [''torchbeast'']"
    using m by (simp add: components_savedir components_join)
  have kk: "components (path_join (base_logdir flags) k) = ?b @ [k]"
    using k by (simp add: components_join)
  from run show ?thesis unfolding kk
  proof (cases rule: init_logdirs_cases)
    case (rmtree_failed e)
    then show "lookup t' (?b @ [k]) = lookup t (?b @ [k])" by simp
  next
    case (logdir_failed e)
    from cleaned_sibling [OF logdir_failed(1) lg k(3)]
    show "lookup t' (?b @ [k]) = lookup t (?b @ [k])" .
  next
    case (savedir_failed t1 e)
    from cleaned_sibling [OF savedir_failed(1) lg k(3)]
      makedirs_sibling [OF savedir_failed(2) lg k(3)]
    show "lookup t' (?b @ [k]) = lookup t (?b @ [k])" by simp
  next
    case (finished t1 t2)
    from cleaned_sibling [OF finished(1) lg k(3)]
      makedirs_sibling [OF finished(2) lg k(3)]
      makedirs_sibling [OF finished(3) sv k(3)]
    show "lookup t' (?b @ [k]) = lookup t (?b @ [k])" by simp
  qed
qed

lemma init_logdirs_sibling_exists:
  assumes run: "init_logdirs flags t = (r, flags', t')"
    and m: "mode flags \<noteq> []" "CHR ''/'' \<notin> set (mode flags)"
    and k: "k \<noteq> []" "CHR ''/'' \<notin> set k" "k \<noteq> mode flags"
  shows "path_exists t' (path_join (base_logdir flags) k)
       = path_exists t (path_join (base_logdir flags) k)"
  using init_logdirs_sibling [OF assms] by (simp add: path_exists_def)


lemma init_logdirs_train_no_assert:
  assumes "init_logdirs flags t = (r, flags', t')" "mode flags = ''train''"
  shows "r \<noteq> Some (AssertionError msg)"
  using assms by (cases rule: init_logdirs_cases) simp_all

lemma init_logdirs_no_runtime_error:
  assumes "init_logdirs flags t = (r, flags', t')"
  shows "r \<noteq> Some (RuntimeError msg)"
  using assms by (cases rule: init_logdirs_cases) simp_all

section \<open>Facts about the process functions\<close>

lemma events_emit: "events (emit env ev w) = events w @ [ev]"
  by (simp add: emit_def)

lemma fs_emit: "fs (emit env ev w) = env ev (fs w)"
  by (simp add: emit_def)

lemma started_append: "started (xs @ ys) = started xs @ started ys"
  by (induction xs rule: started.induct) simp_all

lemma remove_ignoring_events:
  "events (remove_ignoring w p) = events w @ [Removed p]
   \<or> (\<exists>e. events (remove_ignoring w p) = events w @ [RemoveFailed p e])"
  by (simp add: remove_ignoring_def split: sum.splits)

text \<open>
  The removal succeeds exactly on a regular file that may be unlinked; a failure changes
  nothing but the log.
\<close>

lemma remove_ignoring_outcome:
  "if p \<noteq> [] \<and> lookup (fs w) (components p) = Some File \<and> p \<notin> protected w
   then remove_ignoring w p
          = w\<lparr>fs := remove_at (fs w) (components p), events := events w @ [Removed p]\<rparr>
      \<and> lookup (remove_at (fs w) (components p)) (components p) = None
   else \<exists>e. remove_ignoring w p = w\<lparr>events := events w @ [RemoveFailed p e]\<rparr>"
  by (auto simp: remove_ignoring_def os_remove_def remove_at_gone components_nonempty
      split: sum.splits option.splits tree.splits if_splits)

lemma run_remote_cases [consumes 1, case_names raised proceeded]:
  assumes "run_remote flags train env w = (r, flags', w')"
  obtains
    (raised) e t1 where
      "init_logdirs (flags\<lparr>mode := (if train then ''train'' else ''test'')\<rparr>) (fs w)
         = (Some e, flags', t1)"
      "r = Some e" "w' = w\<lparr>fs := t1\<rparr>"
  | (proceeded) flags1 t1 w1 where
      "init_logdirs (flags\<lparr>mode := (if train then ''train'' else ''test'')\<rparr>) (fs w)
         = (None, flags1, t1)"
      "r = None"
      "flags' = flags1\<lparr>address := ''unix:/tmp/rl_server_path'', disable_cuda := (\<not> train),
         cc_env_mode := ''remote''\<rparr>"
      "w1 = remove_ignoring (w\<lparr>fs := t1\<rparr>) ''/tmp/rl_server_path''"
      "w' = (if train
             then emit env (Killed Pantheon_env) (emit env (Joined Polybeast)
                    (emit env (Started Pantheon_env flags') (emit env (Started Polybeast flags') w1)))
             else emit env (Killed Polybeast) (emit env (Joined Pantheon_env)
                    (emit env (Started Pantheon_env flags') (emit env (Started Polybeast flags') w1))))"
proof -
  obtain r1 flags1 t1 where i:
    "init_logdirs (flags\<lparr>mode := (if train then ''train'' else ''test'')\<rparr>) (fs w) = (r1, flags1, t1)"
    by (metis prod_cases3)
  show thesis
  proof (cases r1)
    case None
    with i assms show thesis
      by (intro proceeded [of flags1 t1]) (auto simp: run_remote_def Let_def)
  next
    case (Some e)
    with i assms show thesis
      by (intro raised [of e t1]) (auto simp: run_remote_def Let_def)
  qed
qed

lemma trace_cases [consumes 1, case_names raised proceeded]:
  assumes "trace flags env w = (r, flags', w')"
  obtains
    (raised) e t1 where
      "init_logdirs (flags\<lparr>mode := ''trace''\<rparr>) (fs w) = (Some e, flags', t1)"
      "r = Some e" "w' = w\<lparr>fs := t1\<rparr>"
  | (proceeded) t1 where
      "init_logdirs (flags\<lparr>mode := ''trace''\<rparr>) (fs w) = (None, flags', t1)"
      "r = None"
      "w' = emit env (Joined Polybeast) (emit env (Started Polybeast flags') (w\<lparr>fs := t1\<rparr>))"
proof -
  obtain r1 flags1 t1 where i:
    "init_logdirs (flags\<lparr>mode := ''trace''\<rparr>) (fs w) = (r1, flags1, t1)"
    by (metis prod_cases3)
  show thesis
  proof (cases r1)
    case None
    with i assms show thesis
      by (intro proceeded [of t1]) (auto simp: trace_def Let_def)
  next
    case (Some e)
    with i assms show thesis
      by (intro raised [of e t1]) (auto simp: trace_def Let_def)
  qed
qed

lemma test_local_cases [consumes 1, case_names raised trace_raised traced direct]:
  assumes "test_local flags env w = (r, flags', w')"
  obtains
    (raised) e t1 where
      "init_logdirs (flags\<lparr>mode := ''test''\<rparr>) (fs w) = (Some e, flags', t1)"
      "r = Some e" "w' = w\<lparr>fs := t1\<rparr>"
  | (trace_raised) t1 e copied where
      "init_logdirs (flags\<lparr>mode := ''test''\<rparr>) (fs w) = (None, flags', t1)"
      "\<not> path_exists t1 (traced_model flags')"
      "trace flags' env (w\<lparr>fs := t1\<rparr>) = (Some e, copied, w')"
      "r = Some e"
  | (traced) flags1 t1 copied w1 where
      "init_logdirs (flags\<lparr>mode := ''test''\<rparr>) (fs w) = (None, flags1, t1)"
      "\<not> path_exists t1 (traced_model flags1)"
      "trace flags1 env (w\<lparr>fs := t1\<rparr>) = (None, copied, w1)"
      "r = None" "flags' = flags1\<lparr>cc_env_mode := ''local''\<rparr>"
      "w' = emit env (Joined Pantheon_env) (emit env (Started Pantheon_env flags') w1)"
  | (direct) flags1 t1 where
      "init_logdirs (flags\<lparr>mode := ''test''\<rparr>) (fs w) = (None, flags1, t1)"
      "path_exists t1 (traced_model flags1)"
      "r = None" "flags' = flags1\<lparr>cc_env_mode := ''local''\<rparr>"
      "w' = emit env (Joined Pantheon_env) (emit env (Started Pantheon_env flags') (w\<lparr>fs := t1\<rparr>))"
proof -
  obtain r1 flags1 t1 where i:
    "init_logdirs (flags\<lparr>mode := ''test''\<rparr>) (fs w) = (r1, flags1, t1)"
    by (metis prod_cases3)
  show thesis
  proof (cases r1)
    case (Some e)
    with i assms show thesis
      by (intro raised [of e t1]) (auto simp: test_local_def Let_def)
  next
    case None
    show thesis
    proof (cases "path_exists t1 (traced_model flags1)")
      case True
      with None i assms show thesis
        by (intro direct [of flags1 t1]) (auto simp: test_local_def Let_def)
    next
      case False
      obtain r2 copied w1 where tr: "trace flags1 env (w\<lparr>fs := t1\<rparr>) = (r2, copied, w1)"
        by (metis prod_cases3)
      show thesis
      proof (cases r2)
        case n2: None
        with None False tr i assms show thesis
          by (intro traced [of flags1 t1 copied w1]) (auto simp: test_local_def Let_def)
      next
        case (Some e)
        with None False tr i assms show thesis
          by (intro trace_raised [of t1 e copied]) (auto simp: test_local_def Let_def)
      qed
    qed
  qed
qed

lemma init_logdirs_frame:
  assumes "init_logdirs flags t = (r, flags', t')"
  shows "address flags' = address flags \<and> disable_cuda flags' = disable_cuda flags
    \<and> cc_env_mode flags' = cc_env_mode flags"
  using assms by (cases rule: init_logdirs_cases) simp_all

lemma run_remote_events:
  assumes "run_remote flags train env w = (r, flags', w')"
  shows "if r = None
    then \<exists>rm. events w' = events w @ [rm, Started Polybeast flags', Started Pantheon_env flags']
                 @ (if train then [Joined Polybeast, Killed Pantheon_env]
                    else [Joined Pantheon_env, Killed Polybeast])
             \<and> (rm = Removed ''/tmp/rl_server_path''
                \<or> (\<exists>e. rm = RemoveFailed ''/tmp/rl_server_path'' e))
    else events w' = events w"
  using assms
proof (cases rule: run_remote_cases)
  case (raised e t1)
  then show ?thesis by simp
next
  case (proceeded flags1 t1 w1)
  from remove_ignoring_events [of "w\<lparr>fs := t1\<rparr>" "''/tmp/rl_server_path''"] proceeded(4)
  obtain rm where "events w1 = events w @ [rm]"
    "rm = Removed ''/tmp/rl_server_path'' \<or> (\<exists>e. rm = RemoveFailed ''/tmp/rl_server_path'' e)"
    by auto
  with proceeded(2,5) show ?thesis by (simp add: events_emit)
qed

lemma trace_events:
  assumes "trace flags env w = (r, flags', w')"
  shows "events w' = events w @ (if r = None then [Started Polybeast flags', Joined Polybeast] else [])"
  using assms by (cases rule: trace_cases) (simp_all add: events_emit)

lemma init_logdirs_ok_fields:
  assumes "init_logdirs flags t = (None, flags', t')"
  shows "mode flags' = mode flags" "base_logdir flags' = base_logdir flags"
    "logdir flags' = path_join (base_logdir flags) (mode flags)"
    "savedir flags' = path_join (path_join (base_logdir flags) (mode flags)) ''torchbeast''"
    "checkpoint flags' = path_join (base_logdir flags) ''checkpoint.tar''"
    "traced_model flags' = path_join (base_logdir flags) ''traced_model.pt''"
    "cc_env_mode flags' = cc_env_mode flags"
  using assms by (cases rule: init_logdirs_cases; simp)+

lemma test_local_events:
  assumes "test_local flags env w = (r, flags', w')"
  shows "if r \<noteq> None then events w' = events w
    else if path_exists (fs w) (path_join (base_logdir flags) ''traced_model.pt'')
    then events w' = events w @ [Started Pantheon_env flags', Joined Pantheon_env]
    else \<exists>copied. events w' = events w @ [Started Polybeast copied, Joined Polybeast,
                                           Started Pantheon_env flags', Joined Pantheon_env]
           \<and> mode copied = ''trace''
           \<and> logdir copied = path_join (base_logdir flags) ''trace''
           \<and> savedir copied = path_join (path_join (base_logdir flags) ''trace'') ''torchbeast''"
proof -
  have tm: "path_exists t1 (traced_model flags1)
      = path_exists (fs w) (path_join (base_logdir flags) ''traced_model.pt'')"
    if "init_logdirs (flags\<lparr>mode := ''test''\<rparr>) (fs w) = (None, flags1, t1)" for flags1 t1
    using init_logdirs_ok_fields(6) [OF that]
      init_logdirs_sibling_exists [OF that, of "''traced_model.pt''"]
    by simp
  from assms show ?thesis
  proof (cases rule: test_local_cases)
    case (raised e t1)
    then show ?thesis by simp
  next
    case (trace_raised t1 e copied)
    from trace_events [OF trace_raised(3)] trace_raised(4) show ?thesis by simp
  next
    case (traced flags1 t1 copied w1)
    from traced(3) obtain t2 where
      i2: "init_logdirs (flags1\<lparr>mode := ''trace''\<rparr>) (fs (w\<lparr>fs := t1\<rparr>)) = (None, copied, t2)"
      by (cases rule: trace_cases) simp_all
    from init_logdirs_ok_fields [OF i2] init_logdirs_ok_fields(2) [OF traced(1)]
    have "mode copied = ''trace''" "logdir copied = path_join (base_logdir flags) ''trace''"
      "savedir copied = path_join (path_join (base_logdir flags) ''trace'') ''torchbeast''"
      by simp_all
    with trace_events [OF traced(3)] traced(2,4,6) tm [OF traced(1)] show ?thesis
      by (simp add: events_emit)
  next
    case (direct flags1 t1)
    with tm [OF direct(1)] show ?thesis by (simp add: events_emit)
  qed
qed

lemma run_remote_raises:
  "init_logdirs (flags\<lparr>mode := (if train then ''train'' else ''test'')\<rparr>) (fs w) = (Some e, flags', t')
   \<Longrightarrow> run_remote flags train env w = (Some e, flags', w\<lparr>fs := t'\<rparr>)"
  by (simp add: run_remote_def)

lemma trace_raises:
  "init_logdirs (flags\<lparr>mode := ''trace''\<rparr>) (fs w) = (Some e, flags', t')
   \<Longrightarrow> trace flags env w = (Some e, flags', w\<lparr>fs := t'\<rparr>)"
  by (simp add: trace_def)

lemma test_local_raises:
  "init_logdirs (flags\<lparr>mode := ''test''\<rparr>) (fs w) = (Some e, flags', t')
   \<Longrightarrow> test_local flags env w = (Some e, flags', w\<lparr>fs := t'\<rparr>)"
  by (simp add: test_local_def)

text \<open>The calls return exactly when their \<^verbatim>\<open>init_logdirs\<close> does.\<close>

lemma run_remote_proceeds:
  "(fst (run_remote flags train env w) = None)
   = (fst (init_logdirs (flags\<lparr>mode := (if train then ''train'' else ''test'')\<rparr>) (fs w)) = None)"
proof -
  obtain r flags' w' where a: "run_remote flags train env w = (r, flags', w')"
    by (metis prod_cases3)
  from a show ?thesis by (cases rule: run_remote_cases) (simp_all add: a)
qed

lemma trace_proceeds:
  "(fst (trace flags env w) = None)
   = (fst (init_logdirs (flags\<lparr>mode := ''trace''\<rparr>) (fs w)) = None)"
proof -
  obtain r flags' w' where a: "trace flags env w = (r, flags', w')"
    by (metis prod_cases3)
  from a show ?thesis by (cases rule: trace_cases) (simp_all add: a)
qed


lemma run_remote_no_runtime_error:
  assumes "run_remote flags train env w = (r, flags', w')"
  shows "r \<noteq> Some (RuntimeError msg)"
  using assms by (cases rule: run_remote_cases) (auto dest: init_logdirs_no_runtime_error)

lemma trace_no_runtime_error:
  assumes "trace flags env w = (r, flags', w')"
  shows "r \<noteq> Some (RuntimeError msg)"
  using assms by (cases rule: trace_cases) (auto dest: init_logdirs_no_runtime_error)

lemma test_local_no_runtime_error:
  assumes "test_local flags env w = (r, flags', w')"
  shows "r \<noteq> Some (RuntimeError msg)"
  using assms
  by (cases rule: test_local_cases)
    (auto dest: init_logdirs_no_runtime_error trace_no_runtime_error)

section \<open>Concrete runs\<close>

text \<open>The functions evaluated on the concrete inputs, for use below.\<close>

lemmas eval_defs =
  init_logdirs_def Let_def path_join_def components_def path_exists_def rmtree_def makedirs_def
  example_flags_def trained_tree_def untrained_tree_def traced_tree_def

lemma example_flags_sel:
  "mode (example_flags m) = m" "base_logdir (example_flags m) = ''logs''"
  by (simp_all add: example_flags_def)

lemma example_paths:
  "path_join ''logs'' ''test'' = ''logs/test''"
  "path_join ''logs'' ''train'' = ''logs/train''"
  "path_join ''logs'' ''trace'' = ''logs/trace''"
  "path_join ''logs'' ''checkpoint.tar'' = ''logs/checkpoint.tar''"
  "path_join ''logs'' ''traced_model.pt'' = ''logs/traced_model.pt''"
  "path_join ''logs/test'' ''torchbeast'' = ''logs/test/torchbeast''"
  by (simp_all add: path_join_def)

lemmas run_defs =
  run_remote_def trace_def test_local_def main_def remove_ignoring_def os_remove_def
  unresolved_def emit_def no_effect_def example_world_def

lemma example_world_sel: "fs (example_world t) = t" "events (example_world t) = []"
  by (simp_all add: example_world_def)

lemma remote_test_run:
  "fst (run_remote (example_flags ''test'') False no_effect (example_world trained_tree)) = None"
  "hd (events (snd (snd (run_remote (example_flags ''test'') False no_effect
     (example_world trained_tree))))) = Removed ''/tmp/rl_server_path''"
  by (simp_all add: run_defs eval_defs)

lemma remote_train_run:
  "fst (run_remote (example_flags ''train'') True no_effect (example_world untrained_tree)) = None"
  "hd (events (snd (snd (run_remote (example_flags ''train'') True no_effect
     (example_world untrained_tree)))))
   = RemoveFailed ''/tmp/rl_server_path'' FileNotFoundError"
  by (simp_all add: run_defs eval_defs)

lemma remote_test_raises:
  "fst (run_remote (example_flags ''test'') False no_effect (example_world untrained_tree))
     = Some (AssertionError ''Checkpoint logs/checkpoint.tar missing in test mode'')"
  by (simp add: run_defs eval_defs)

lemma remote_locked_run:
  "fst (run_remote (example_flags ''test'') False no_effect locked_world) = None"
  "hd (events (snd (snd (run_remote (example_flags ''test'') False no_effect locked_world))))
   = RemoveFailed ''/tmp/rl_server_path'' PermissionError"
  "lookup (fs (snd (snd (run_remote (example_flags ''test'') False no_effect locked_world))))
     [''/'', ''tmp'', ''rl_server_path''] = Some File"
  by (simp_all add: run_defs eval_defs locked_world_def)

lemma remote_test_socket_gone:
  "lookup (fs (snd (snd (run_remote (example_flags ''test'') False no_effect
     (example_world trained_tree))))) [''/'', ''tmp'', ''rl_server_path''] = None"
  by (simp add: run_defs eval_defs)


lemma local_test_untraced:
  "fst (test_local (example_flags ''test_local'') no_effect (example_world trained_tree)) = None"
  "started (events (snd (snd (test_local (example_flags ''test_local'') no_effect
     (example_world trained_tree))))) = [Polybeast, Pantheon_env]"
  by (simp_all add: run_defs eval_defs)

lemma local_test_traced:
  "fst (test_local (example_flags ''test_local'') no_effect (example_world traced_tree)) = None"
  by (simp_all add: run_defs eval_defs)

lemma trace_run:
  "fst (trace (example_flags ''trace'') no_effect (example_world trained_tree)) = None"
  by (simp_all add: run_defs eval_defs)

lemma example_traced_model:
  "\<not> path_exists trained_tree ''logs/traced_model.pt''"
  "path_exists traced_tree ''logs/traced_model.pt''"
  by (simp_all add: eval_defs)

lemma main_train_run:
  "fst (main (example_flags ''train'') no_effect (example_world trained_tree)) = None"
  "started (events (snd (snd (main (example_flags ''train'') no_effect
     (example_world trained_tree)))))
   = [Polybeast, Pantheon_env, Polybeast, Polybeast, Pantheon_env]"
  by (simp_all add: run_defs eval_defs)

section \<open>The claims\<close>

subsection \<open>The checkpoint precondition\<close>

text \<open>
  Claim C1. In every mode other than \<^verbatim>\<open>train\<close>, \<^verbatim>\<open>init_logdirs\<close> tests whether
  the checkpoint \<^verbatim>\<open>base_logdir/checkpoint.tar\<close> exists and raises an assertion error
  when it does not; in mode \<^verbatim>\<open>train\<close> it never raises one. The test is made once the
  directory calls have returned, on the tree they leave; in the modes \<^verbatim>\<open>test\<close> and
  \<^verbatim>\<open>trace\<close>, the only ones in which the script reaches the test, these calls neither
  create nor delete the checkpoint, so the test is about the tree as it was on entry.
\<close>

theorem init_logdirs_checkpoint_check:
  assumes "init_logdirs flags t = (r, flags', t')"
  shows "(mode flags = ''train'' \<longrightarrow> (\<forall>msg. r \<noteq> Some (AssertionError msg)))
    \<and> (mode flags \<noteq> ''train'' \<and> (\<forall>e. r \<noteq> Some (OSError e)) \<longrightarrow>
         (if path_exists t' (path_join (base_logdir flags) ''checkpoint.tar'') then r = None
          else r = Some (AssertionError
                 (''Checkpoint '' @ path_join (base_logdir flags) ''checkpoint.tar''
                  @ '' missing in '' @ mode flags @ '' mode''))))
    \<and> (mode flags = ''test'' \<or> mode flags = ''trace'' \<longrightarrow>
         path_exists t' (path_join (base_logdir flags) ''checkpoint.tar'')
         = path_exists t (path_join (base_logdir flags) ''checkpoint.tar''))"
proof (intro conjI impI allI)
  fix msg assume "mode flags = ''train''"
  with assms show "r \<noteq> Some (AssertionError msg)" by (rule init_logdirs_train_no_assert)
next
  assume "mode flags \<noteq> ''train'' \<and> (\<forall>e. r \<noteq> Some (OSError e))"
  with assms show "if path_exists t' (path_join (base_logdir flags) ''checkpoint.tar'') then r = None
          else r = Some (AssertionError
                 (''Checkpoint '' @ path_join (base_logdir flags) ''checkpoint.tar''
                  @ '' missing in '' @ mode flags @ '' mode''))"
    by (cases rule: init_logdirs_cases) simp_all
next
  assume "mode flags = ''test'' \<or> mode flags = ''trace''"
  then show "path_exists t' (path_join (base_logdir flags) ''checkpoint.tar'')
         = path_exists t (path_join (base_logdir flags) ''checkpoint.tar'')"
    by (intro init_logdirs_sibling_exists [OF assms]) auto
qed

theorem init_logdirs_checkpoint_check_witness:
  "fst (init_logdirs (example_flags ''test'') untrained_tree)
     = Some (AssertionError ''Checkpoint logs/checkpoint.tar missing in test mode'')
   \<and> \<not> path_exists untrained_tree ''logs/checkpoint.tar''
   \<and> fst (init_logdirs (example_flags ''test'') trained_tree) = None
   \<and> path_exists trained_tree ''logs/checkpoint.tar''
   \<and> fst (init_logdirs (example_flags ''train'') untrained_tree) = None"
proof -
  let ?X = "init_logdirs (example_flags ''test'') untrained_tree"
  let ?Y = "init_logdirs (example_flags ''test'') trained_tree"
  let ?Z = "init_logdirs (example_flags ''train'') untrained_tree"
  have x: "?X = (fst ?X, fst (snd ?X), snd (snd ?X))"
    and y: "?Y = (fst ?Y, fst (snd ?Y), snd (snd ?Y))"
    by simp_all
  have no_os: "\<forall>e. fst ?X \<noteq> Some (OSError e)" "\<forall>e. fst ?Y \<noteq> Some (OSError e)"
    by (simp_all add: eval_defs)
  have ex: "\<not> path_exists untrained_tree ''logs/checkpoint.tar''"
    "path_exists trained_tree ''logs/checkpoint.tar''"
    by (simp_all add: eval_defs)
  have "fst ?Z = None"
    by (simp add: eval_defs)
  with init_logdirs_checkpoint_check [OF x] init_logdirs_checkpoint_check [OF y] no_os ex
  show ?thesis
    by (simp add: example_flags_sel example_paths)
qed

subsection \<open>Mode dispatch\<close>

text \<open>
  Claim C2. \<^verbatim>\<open>main\<close> takes one path for each of the four modes: for \<^verbatim>\<open>train\<close>
  the remote training run, then the tracing, then the remote test run, each only if the
  one before returned; for \<^verbatim>\<open>test\<close> the remote test run; for \<^verbatim>\<open>test_local\<close> the
  local test; for \<^verbatim>\<open>trace\<close> the tracing. None of these ends in a
  \<^verbatim>\<open>RuntimeError\<close>. For any other mode \<^verbatim>\<open>main\<close> raises the
  \<^verbatim>\<open>RuntimeError\<close> \<^verbatim>\<open>Unknown mode ...\<close> and leaves the flags, the file tree and
  the log of process operations as they were.
\<close>

theorem main_dispatch:
  "(mode flags = ''train'' \<longrightarrow>
      main flags env w =
        (case run_remote flags True env w of
           (Some e, flags1, w1) \<Rightarrow> (Some e, flags1, w1)
         | (None, flags1, w1) \<Rightarrow>
        (case trace flags1 env w1 of
           (Some e, flags2, w2) \<Rightarrow> (Some e, flags2, w2)
         | (None, flags2, w2) \<Rightarrow> run_remote flags2 False env w2)))
   \<and> (mode flags = ''test'' \<longrightarrow> main flags env w = run_remote flags False env w)
   \<and> (mode flags = ''test_local'' \<longrightarrow> main flags env w = test_local flags env w)
   \<and> (mode flags = ''trace'' \<longrightarrow> main flags env w = trace flags env w)
   \<and> (mode flags \<in> {''train'', ''test'', ''test_local'', ''trace''} \<longrightarrow>
        (\<forall>msg. fst (main flags env w) \<noteq> Some (RuntimeError msg)))
   \<and> (mode flags \<notin> {''train'', ''test'', ''test_local'', ''trace''} \<longrightarrow>
        main flags env w = (Some (RuntimeError (''Unknown mode '' @ mode flags)), flags, w))"
proof -
  have train: "fst (main flags env w) \<noteq> Some (RuntimeError msg)" if "mode flags = ''train''" for msg
  proof -
    obtain r1 f1 w1 where a: "run_remote flags True env w = (r1, f1, w1)" by (metis prod_cases3)
    obtain r2 f2 w2 where b: "trace f1 env w1 = (r2, f2, w2)" by (metis prod_cases3)
    obtain r3 f3 w3 where c: "run_remote f2 False env w2 = (r3, f3, w3)" by (metis prod_cases3)
    from that a b c run_remote_no_runtime_error [OF a, of msg] trace_no_runtime_error [OF b, of msg]
      run_remote_no_runtime_error [OF c, of msg]
    show ?thesis by (cases r1; cases r2) (simp_all add: main_def)
  qed
  have others: "fst (main flags env w) \<noteq> Some (RuntimeError msg)"
    if "mode flags = ''test'' \<or> mode flags = ''test_local'' \<or> mode flags = ''trace''" for msg
    using that run_remote_no_runtime_error [of flags False env w _ _ _ msg]
      test_local_no_runtime_error [of flags env w _ _ _ msg]
      trace_no_runtime_error [of flags env w _ _ _ msg]
    by (auto simp: main_def) (metis prod.collapse)+
  show ?thesis using train others by (auto simp: main_def)
qed


theorem main_dispatch_witness:
  "main (example_flags ''bogus'') no_effect (example_world trained_tree)
     = (Some (RuntimeError ''Unknown mode bogus''), example_flags ''bogus'',
        example_world trained_tree)
   \<and> main (example_flags ''test'') no_effect (example_world trained_tree)
     = run_remote (example_flags ''test'') False no_effect (example_world trained_tree)
   \<and> main (example_flags ''test_local'') no_effect (example_world trained_tree)
     = test_local (example_flags ''test_local'') no_effect (example_world trained_tree)
   \<and> main (example_flags ''trace'') no_effect (example_world trained_tree)
     = trace (example_flags ''trace'') no_effect (example_world trained_tree)
   \<and> fst (main (example_flags ''train'') no_effect (example_world trained_tree)) = None
   \<and> started (events (snd (snd (main (example_flags ''train'') no_effect
        (example_world trained_tree)))))
     = [Polybeast, Pantheon_env, Polybeast, Polybeast, Pantheon_env]"
  using main_dispatch [of "example_flags ''bogus''" no_effect "example_world trained_tree"]
    main_dispatch [of "example_flags ''test''" no_effect "example_world trained_tree"]
    main_dispatch [of "example_flags ''test_local''" no_effect "example_world trained_tree"]
    main_dispatch [of "example_flags ''trace''" no_effect "example_world trained_tree"]
    main_train_run
  by (simp add: example_flags_sel)

subsection \<open>Running twice\<close>



subsection \<open>Remote runs: which process is waited for\<close>

text \<open>
  Claim C4. A call of \<^verbatim>\<open>run_remote\<close> that gets past \<^verbatim>\<open>init_logdirs\<close> starts
  polybeast, then pantheon_env; with \<^verbatim>\<open>train=True\<close> it then joins polybeast and
  kills pantheon_env, with \<^verbatim>\<open>train=False\<close> it joins pantheon_env and kills
  polybeast. One process is joined and the other killed, in this order, and nothing else
  is joined or killed. A call in which \<^verbatim>\<open>init_logdirs\<close> raises performs no process
  operation.
\<close>

theorem run_remote_join_then_kill:
  assumes "run_remote flags train env w = (r, flags', w')"
  shows "(r = None \<longrightarrow>
          (\<exists>rm. events w' = events w @ [rm, Started Polybeast flags', Started Pantheon_env flags']
                 @ (if train then [Joined Polybeast, Killed Pantheon_env]
                    else [Joined Pantheon_env, Killed Polybeast])
             \<and> (rm = Removed ''/tmp/rl_server_path''
                \<or> (\<exists>e. rm = RemoveFailed ''/tmp/rl_server_path'' e))))
       \<and> (r \<noteq> None \<longrightarrow> events w' = events w)"
  using run_remote_events [OF assms] by (simp split: if_splits)

theorem run_remote_join_then_kill_witness:
  "fst (run_remote (example_flags ''test'') False no_effect (example_world trained_tree)) = None
   \<and> events (snd (snd (run_remote (example_flags ''test'') False no_effect
        (example_world trained_tree))))
     = [Removed ''/tmp/rl_server_path'',
        Started Polybeast (fst (snd (run_remote (example_flags ''test'') False no_effect
          (example_world trained_tree)))),
        Started Pantheon_env (fst (snd (run_remote (example_flags ''test'') False no_effect
          (example_world trained_tree)))),
        Joined Pantheon_env, Killed Polybeast]
   \<and> fst (run_remote (example_flags ''train'') True no_effect (example_world untrained_tree)) = None
   \<and> events (snd (snd (run_remote (example_flags ''train'') True no_effect
        (example_world untrained_tree))))
     = [RemoveFailed ''/tmp/rl_server_path'' FileNotFoundError,
        Started Polybeast (fst (snd (run_remote (example_flags ''train'') True no_effect
          (example_world untrained_tree)))),
        Started Pantheon_env (fst (snd (run_remote (example_flags ''train'') True no_effect
          (example_world untrained_tree)))),
        Joined Polybeast, Killed Pantheon_env]
   \<and> events (snd (snd (run_remote (example_flags ''test'') False no_effect
        (example_world untrained_tree)))) = []"
proof -
  let ?A = "run_remote (example_flags ''test'') False no_effect (example_world trained_tree)"
  let ?B = "run_remote (example_flags ''train'') True no_effect (example_world untrained_tree)"
  let ?C = "run_remote (example_flags ''test'') False no_effect (example_world untrained_tree)"
  have a: "?A = (fst ?A, fst (snd ?A), snd (snd ?A))"
    and b: "?B = (fst ?B, fst (snd ?B), snd (snd ?B))"
    and c: "?C = (fst ?C, fst (snd ?C), snd (snd ?C))" by simp_all
  from run_remote_join_then_kill [OF a] remote_test_run
  have "events (snd (snd ?A)) = [Removed ''/tmp/rl_server_path'',
        Started Polybeast (fst (snd ?A)), Started Pantheon_env (fst (snd ?A)),
        Joined Pantheon_env, Killed Polybeast]"
    by (auto simp: example_world_sel)
  moreover from run_remote_join_then_kill [OF b] remote_train_run
  have "events (snd (snd ?B)) = [RemoveFailed ''/tmp/rl_server_path'' FileNotFoundError,
        Started Polybeast (fst (snd ?B)), Started Pantheon_env (fst (snd ?B)),
        Joined Polybeast, Killed Pantheon_env]"
    by (auto simp: example_world_sel)
  moreover from run_remote_join_then_kill [OF c] remote_test_raises
  have "events (snd (snd ?C)) = []"
    by (simp add: example_world_sel)
  ultimately show ?thesis using remote_test_run(1) remote_train_run(1) by simp
qed


subsection \<open>How many processes are started\<close>

text \<open>
  Claim C5 says that \<^verbatim>\<open>test_local\<close> starts exactly one process, pantheon_env. It does
  not when the traced model is missing: \<^verbatim>\<open>test_local\<close> then calls \<^verbatim>\<open>trace\<close>
  first, which starts polybeast, so that two processes are started during the call. Here
  the checkpoint exists and the traced model does not.
\<close>

theorem test_local_starts_two_counterexample:
  "fst (test_local (example_flags ''test_local'') no_effect (example_world trained_tree)) = None
   \<and> started (events (snd (snd (test_local (example_flags ''test_local'') no_effect
        (example_world trained_tree))))) = [Polybeast, Pantheon_env]
   \<and> started (events (snd (snd (test_local (example_flags ''test_local'') no_effect
        (example_world trained_tree))))) \<noteq> [Pantheon_env]"
  by (simp add: local_test_untraced)

text \<open>
  Claim C5, amended. \<^verbatim>\<open>run_remote\<close> starts polybeast and pantheon_env, and
  \<^verbatim>\<open>trace\<close> starts polybeast, when their call of \<^verbatim>\<open>init_logdirs\<close> returns, and
  nothing when it raises; the two calls return exactly when their \<^verbatim>\<open>init_logdirs\<close>
  does, whatever becomes of the removal of the socket file. \<^verbatim>\<open>test_local\<close>, when it returns, has started pantheon_env
  alone if the traced model existed, and polybeast (through \<^verbatim>\<open>trace\<close>) and then
  pantheon_env if it did not; when it raises it has started nothing. No call of one of the
  three functions starts more than two processes.
\<close>

theorem process_starts:
  "(run_remote flags train env w = (r, flags', w') \<longrightarrow>
      started (events w') = started (events w) @ (if r = None then [Polybeast, Pantheon_env] else []))
   \<and> (trace flags env w = (r, flags', w') \<longrightarrow>
      started (events w') = started (events w) @ (if r = None then [Polybeast] else []))
   \<and> (test_local flags env w = (r, flags', w') \<longrightarrow>
      started (events w') = started (events w) @
        (if r \<noteq> None then []
         else if path_exists (fs w) (path_join (base_logdir flags) ''traced_model.pt'')
         then [Pantheon_env] else [Polybeast, Pantheon_env]))
   \<and> ((fst (run_remote flags train env w) = None)
       = (fst (init_logdirs (flags\<lparr>mode := (if train then ''train'' else ''test'')\<rparr>) (fs w))
          = None))
   \<and> ((fst (trace flags env w) = None)
       = (fst (init_logdirs (flags\<lparr>mode := ''trace''\<rparr>) (fs w)) = None))"
proof (intro conjI impI)
  show "(fst (run_remote flags train env w) = None)
       = (fst (init_logdirs (flags\<lparr>mode := (if train then ''train'' else ''test'')\<rparr>) (fs w))
          = None)"
    by (rule run_remote_proceeds)
next
  show "(fst (trace flags env w) = None)
       = (fst (init_logdirs (flags\<lparr>mode := ''trace''\<rparr>) (fs w)) = None)"
    by (rule trace_proceeds)
next
  assume "run_remote flags train env w = (r, flags', w')"
  from run_remote_events [OF this]
  show "started (events w') = started (events w) @ (if r = None then [Polybeast, Pantheon_env] else [])"
    by (auto simp: started_append split: if_splits)
next
  assume "trace flags env w = (r, flags', w')"
  from trace_events [OF this]
  show "started (events w') = started (events w) @ (if r = None then [Polybeast] else [])"
    by (auto simp: started_append split: if_splits)
next
  assume "test_local flags env w = (r, flags', w')"
  from test_local_events [OF this]
  show "started (events w') = started (events w) @
        (if r \<noteq> None then []
         else if path_exists (fs w) (path_join (base_logdir flags) ''traced_model.pt'')
         then [Pantheon_env] else [Polybeast, Pantheon_env])"
    by (auto simp: started_append split: if_splits)
qed


theorem process_starts_witness:
  "started (events (snd (snd (run_remote (example_flags ''test'') False no_effect
        (example_world trained_tree))))) = [Polybeast, Pantheon_env]
   \<and> started (events (snd (snd (run_remote (example_flags ''test'') False no_effect
        (example_world untrained_tree))))) = []
   \<and> started (events (snd (snd (trace (example_flags ''trace'') no_effect
        (example_world trained_tree))))) = [Polybeast]
   \<and> started (events (snd (snd (test_local (example_flags ''test_local'') no_effect
        (example_world traced_tree))))) = [Pantheon_env]
   \<and> hd (events (snd (snd (run_remote (example_flags ''train'') True no_effect
        (example_world untrained_tree)))))
     = RemoveFailed ''/tmp/rl_server_path'' FileNotFoundError
   \<and> started (events (snd (snd (run_remote (example_flags ''train'') True no_effect
        (example_world untrained_tree))))) = [Polybeast, Pantheon_env]
   \<and> hd (events (snd (snd (run_remote (example_flags ''test'') False no_effect locked_world))))
     = RemoveFailed ''/tmp/rl_server_path'' PermissionError
   \<and> started (events (snd (snd (run_remote (example_flags ''test'') False no_effect
        locked_world)))) = [Polybeast, Pantheon_env]"
proof -
  let ?E = "run_remote (example_flags ''train'') True no_effect (example_world untrained_tree)"
  let ?F = "run_remote (example_flags ''test'') False no_effect locked_world"
  have e: "?E = (fst ?E, fst (snd ?E), snd (snd ?E))"
    and f: "?F = (fst ?F, fst (snd ?F), snd (snd ?F))" by simp_all
  have lw: "events locked_world = []" by (simp add: locked_world_def)
  from process_starts [THEN conjunct1, rule_format, OF e]
    process_starts [THEN conjunct1, rule_format, OF f]
    remote_train_run(1) remote_locked_run(1) lw
  have failing: "started (events (snd (snd ?E))) = [Polybeast, Pantheon_env]"
    "started (events (snd (snd ?F))) = [Polybeast, Pantheon_env]"
    by (simp_all add: example_world_sel)
  let ?A = "run_remote (example_flags ''test'') False no_effect (example_world trained_tree)"
  let ?B = "run_remote (example_flags ''test'') False no_effect (example_world untrained_tree)"
  let ?C = "trace (example_flags ''trace'') no_effect (example_world trained_tree)"
  let ?D = "test_local (example_flags ''test_local'') no_effect (example_world traced_tree)"
  have a: "?A = (fst ?A, fst (snd ?A), snd (snd ?A))"
    and b: "?B = (fst ?B, fst (snd ?B), snd (snd ?B))"
    and c: "?C = (fst ?C, fst (snd ?C), snd (snd ?C))"
    and d: "?D = (fst ?D, fst (snd ?D), snd (snd ?D))" by simp_all
  from process_starts [THEN conjunct1, rule_format, OF a]
    process_starts [THEN conjunct1, rule_format, OF b]
    process_starts [THEN conjunct2, THEN conjunct1, rule_format, OF c]
    process_starts [THEN conjunct2, THEN conjunct2, THEN conjunct1, rule_format, OF d]
    remote_test_run(1) remote_test_raises trace_run local_test_traced example_traced_model
    failing remote_train_run(2) remote_locked_run(2)
  show ?thesis
    by (simp add: example_world_sel example_flags_sel example_paths)
qed

subsection \<open>Derived paths\<close>

text \<open>
  Claim C6. \<^verbatim>\<open>init_logdirs\<close> derives the paths from \<^verbatim>\<open>base_logdir\<close> and
  \<^verbatim>\<open>mode\<close> alone, whatever their values: \<^verbatim>\<open>logdir\<close> is the join of
  \<^verbatim>\<open>base_logdir\<close> and \<^verbatim>\<open>mode\<close>, \<^verbatim>\<open>savedir\<close> the join of \<^verbatim>\<open>logdir\<close> and
  \<^verbatim>\<open>torchbeast\<close>, \<^verbatim>\<open>checkpoint\<close> the join of \<^verbatim>\<open>base_logdir\<close> and
  \<^verbatim>\<open>checkpoint.tar\<close>, \<^verbatim>\<open>traced_model\<close> the join of \<^verbatim>\<open>base_logdir\<close> and
  \<^verbatim>\<open>traced_model.pt\<close>. The first two are assigned before the directory calls and hold
  on every run; the last two are assigned after them, so they hold on every run in which
  \<^verbatim>\<open>rmtree\<close> and \<^verbatim>\<open>makedirs\<close> return, the failed assertion included.
\<close>

theorem init_logdirs_derived_paths:
  assumes "init_logdirs flags t = (r, flags', t')"
  shows "logdir flags' = path_join (base_logdir flags) (mode flags)
    \<and> savedir flags' = path_join (path_join (base_logdir flags) (mode flags)) ''torchbeast''
    \<and> ((\<forall>e. r \<noteq> Some (OSError e)) \<longrightarrow>
         checkpoint flags' = path_join (base_logdir flags) ''checkpoint.tar''
       \<and> traced_model flags' = path_join (base_logdir flags) ''traced_model.pt'')
    \<and> mode flags' = mode flags \<and> base_logdir flags' = base_logdir flags"
  using assms by (cases rule: init_logdirs_cases) simp_all

theorem init_logdirs_derived_paths_witness:
  "fst (init_logdirs (example_flags ''test'') trained_tree) = None
   \<and> logdir (fst (snd (init_logdirs (example_flags ''test'') trained_tree))) = ''logs/test''
   \<and> savedir (fst (snd (init_logdirs (example_flags ''test'') trained_tree)))
       = ''logs/test/torchbeast''
   \<and> checkpoint (fst (snd (init_logdirs (example_flags ''test'') trained_tree)))
       = ''logs/checkpoint.tar''
   \<and> traced_model (fst (snd (init_logdirs (example_flags ''test'') trained_tree)))
       = ''logs/traced_model.pt''"
proof -
  let ?X = "init_logdirs (example_flags ''test'') trained_tree"
  have run: "?X = (fst ?X, fst (snd ?X), snd (snd ?X))" by simp
  have r: "fst ?X = None" by (simp add: eval_defs)
  from init_logdirs_derived_paths [OF run] r show ?thesis
    by (simp add: path_join_def example_flags_def)
qed

subsection \<open>Remote runs: the socket\<close>

text \<open>
  Claim C7. In either mode, \<^verbatim>\<open>run_remote\<close> returns exactly when its call of
  \<^verbatim>\<open>init_logdirs\<close> returns: a failure to remove \<^verbatim>\<open>/tmp/rl_server_path\<close> never
  ends the call. A call that gets past \<^verbatim>\<open>init_logdirs\<close> first tries the removal. If a
  regular file is at the path and the operating system lets it be unlinked, the file is
  removed and no entry is left at the path; otherwise the removal fails, the failure is
  dropped and the tree is left as it was. The two processes are started in the world this
  leaves, after the attempt, and both receive flags whose \<^verbatim>\<open>address\<close> is
  \<^verbatim>\<open>unix:/tmp/rl_server_path\<close>.
\<close>

theorem run_remote_socket:
  assumes "run_remote flags train env w = (r, flags', w')"
  shows "((r = None)
       = (fst (init_logdirs (flags\<lparr>mode := (if train then ''train'' else ''test'')\<rparr>) (fs w))
          = None))
    \<and> (r = None \<longrightarrow>
         (\<exists>flags1 t1 w1.
            init_logdirs (flags\<lparr>mode := (if train then ''train'' else ''test'')\<rparr>) (fs w)
              = (None, flags1, t1)
          \<and> w1 = remove_ignoring (w\<lparr>fs := t1\<rparr>) ''/tmp/rl_server_path''
          \<and> (if lookup t1 [''/'', ''tmp'', ''rl_server_path''] = Some File
                 \<and> ''/tmp/rl_server_path'' \<notin> protected w
              then events w1 = events w @ [Removed ''/tmp/rl_server_path'']
                 \<and> fs w1 = remove_at t1 [''/'', ''tmp'', ''rl_server_path'']
                 \<and> lookup (fs w1) [''/'', ''tmp'', ''rl_server_path''] = None
              else (\<exists>e. events w1 = events w @ [RemoveFailed ''/tmp/rl_server_path'' e])
                 \<and> fs w1 = t1)
          \<and> address flags' = ''unix:/tmp/rl_server_path''
          \<and> w' = (if train
                   then emit env (Killed Pantheon_env) (emit env (Joined Polybeast)
                          (emit env (Started Pantheon_env flags')
                            (emit env (Started Polybeast flags') w1)))
                   else emit env (Killed Polybeast) (emit env (Joined Pantheon_env)
                          (emit env (Started Pantheon_env flags')
                            (emit env (Started Polybeast flags') w1))))))"
proof -
  have returns: "(r = None)
       = (fst (init_logdirs (flags\<lparr>mode := (if train then ''train'' else ''test'')\<rparr>) (fs w))
          = None)"
    using run_remote_proceeds [of flags train env w] assms by simp
  have c: "components ''/tmp/rl_server_path'' = [''/'', ''tmp'', ''rl_server_path'']"
    by (simp add: components_def)
  from assms have "r = None \<longrightarrow>
         (\<exists>flags1 t1 w1.
            init_logdirs (flags\<lparr>mode := (if train then ''train'' else ''test'')\<rparr>) (fs w)
              = (None, flags1, t1)
          \<and> w1 = remove_ignoring (w\<lparr>fs := t1\<rparr>) ''/tmp/rl_server_path''
          \<and> (if lookup t1 [''/'', ''tmp'', ''rl_server_path''] = Some File
                 \<and> ''/tmp/rl_server_path'' \<notin> protected w
              then events w1 = events w @ [Removed ''/tmp/rl_server_path'']
                 \<and> fs w1 = remove_at t1 [''/'', ''tmp'', ''rl_server_path'']
                 \<and> lookup (fs w1) [''/'', ''tmp'', ''rl_server_path''] = None
              else (\<exists>e. events w1 = events w @ [RemoveFailed ''/tmp/rl_server_path'' e])
                 \<and> fs w1 = t1)
          \<and> address flags' = ''unix:/tmp/rl_server_path''
          \<and> w' = (if train
                   then emit env (Killed Pantheon_env) (emit env (Joined Polybeast)
                          (emit env (Started Pantheon_env flags')
                            (emit env (Started Polybeast flags') w1)))
                   else emit env (Killed Polybeast) (emit env (Joined Pantheon_env)
                          (emit env (Started Pantheon_env flags')
                            (emit env (Started Polybeast flags') w1)))))"
  proof (cases rule: run_remote_cases)
    case (raised e t1)
    then show ?thesis by simp
  next
    case (proceeded flags1 t1 w1)
    from remove_ignoring_outcome [of "''/tmp/rl_server_path''" "w\<lparr>fs := t1\<rparr>"] proceeded(4)
    have "if lookup t1 [''/'', ''tmp'', ''rl_server_path''] = Some File
                 \<and> ''/tmp/rl_server_path'' \<notin> protected w
              then events w1 = events w @ [Removed ''/tmp/rl_server_path'']
                 \<and> fs w1 = remove_at t1 [''/'', ''tmp'', ''rl_server_path'']
                 \<and> lookup (fs w1) [''/'', ''tmp'', ''rl_server_path''] = None
              else (\<exists>e. events w1 = events w @ [RemoveFailed ''/tmp/rl_server_path'' e])
                 \<and> fs w1 = t1"
      by (auto simp: c split: if_splits)
    with proceeded show ?thesis
      by (intro impI exI [of _ flags1] exI [of _ t1] exI [of _ w1]) simp
  qed
  with returns show ?thesis by blast
qed

theorem run_remote_socket_witness:
  "lookup trained_tree [''/'', ''tmp'', ''rl_server_path''] = Some File
   \<and> fst (run_remote (example_flags ''test'') False no_effect (example_world trained_tree)) = None
   \<and> address (fst (snd (run_remote (example_flags ''test'') False no_effect
        (example_world trained_tree)))) = ''unix:/tmp/rl_server_path''
   \<and> hd (events (snd (snd (run_remote (example_flags ''test'') False no_effect
        (example_world trained_tree))))) = Removed ''/tmp/rl_server_path''
   \<and> lookup (fs (snd (snd (run_remote (example_flags ''test'') False no_effect
        (example_world trained_tree))))) [''/'', ''tmp'', ''rl_server_path''] = None
   \<and> fst (run_remote (example_flags ''train'') True no_effect (example_world untrained_tree)) = None
   \<and> hd (events (snd (snd (run_remote (example_flags ''train'') True no_effect
        (example_world untrained_tree)))))
     = RemoveFailed ''/tmp/rl_server_path'' FileNotFoundError
   \<and> address (fst (snd (run_remote (example_flags ''train'') True no_effect
        (example_world untrained_tree)))) = ''unix:/tmp/rl_server_path''
   \<and> fst (run_remote (example_flags ''test'') False no_effect locked_world) = None
   \<and> hd (events (snd (snd (run_remote (example_flags ''test'') False no_effect locked_world))))
     = RemoveFailed ''/tmp/rl_server_path'' PermissionError
   \<and> lookup (fs (snd (snd (run_remote (example_flags ''test'') False no_effect locked_world))))
        [''/'', ''tmp'', ''rl_server_path''] = Some File
   \<and> address (fst (snd (run_remote (example_flags ''test'') False no_effect locked_world)))
     = ''unix:/tmp/rl_server_path''"
proof -
  let ?A = "run_remote (example_flags ''test'') False no_effect (example_world trained_tree)"
  let ?B = "run_remote (example_flags ''train'') True no_effect (example_world untrained_tree)"
  let ?C = "run_remote (example_flags ''test'') False no_effect locked_world"
  have a: "?A = (fst ?A, fst (snd ?A), snd (snd ?A))"
    and b: "?B = (fst ?B, fst (snd ?B), snd (snd ?B))"
    and c: "?C = (fst ?C, fst (snd ?C), snd (snd ?C))" by simp_all
  from run_remote_socket [OF a] remote_test_run(1)
  have "address (fst (snd ?A)) = ''unix:/tmp/rl_server_path''" by auto
  moreover from run_remote_socket [OF b] remote_train_run(1)
  have "address (fst (snd ?B)) = ''unix:/tmp/rl_server_path''" by auto
  moreover from run_remote_socket [OF c] remote_locked_run(1)
  have "address (fst (snd ?C)) = ''unix:/tmp/rl_server_path''" by auto
  moreover have "lookup trained_tree [''/'', ''tmp'', ''rl_server_path''] = Some File"
    by (simp add: trained_tree_def)
  ultimately show ?thesis
    using remote_test_run remote_train_run remote_locked_run remote_test_socket_gone
    by simp
qed

subsection \<open>Remote runs: CUDA\<close>

text \<open>
  Claim C8. When \<^verbatim>\<open>run_remote\<close> returns, \<^verbatim>\<open>flags.disable_cuda\<close> is the negation
  of \<^verbatim>\<open>train\<close>, and every process the call starts receives flags in which this is
  already so. When \<^verbatim>\<open>init_logdirs\<close> raises, the attribute is left as it was and no
  process is started.
\<close>

theorem run_remote_disable_cuda:
  assumes "run_remote flags train env w = (r, flags', w')"
  shows "(r = None \<longrightarrow> disable_cuda flags' = (\<not> train))
    \<and> (\<forall>p f. Started p f \<in> set (drop (length (events w)) (events w')) \<longrightarrow>
          disable_cuda f = (\<not> train))
    \<and> (r \<noteq> None \<longrightarrow> disable_cuda flags' = disable_cuda flags \<and> events w' = events w)"
proof -
  from assms have "(r = None \<longrightarrow> disable_cuda flags' = (\<not> train))
    \<and> (r \<noteq> None \<longrightarrow> disable_cuda flags' = disable_cuda flags)"
  proof (cases rule: run_remote_cases)
    case (raised e t1)
    from init_logdirs_frame [OF raised(1)] raised(2) show ?thesis by simp
  next
    case (proceeded flags1 t1 w1)
    then show ?thesis by simp
  qed
  with run_remote_events [OF assms] show ?thesis
    by (cases "r = None") auto
qed

theorem run_remote_disable_cuda_witness:
  "fst (run_remote (example_flags ''test'') False no_effect (example_world trained_tree)) = None
   \<and> disable_cuda (fst (snd (run_remote (example_flags ''test'') False no_effect
         (example_world trained_tree))))
   \<and> fst (run_remote (example_flags ''train'') True no_effect (example_world untrained_tree)) = None
   \<and> \<not> disable_cuda (fst (snd (run_remote (example_flags ''train'') True no_effect
         (example_world untrained_tree))))
   \<and> fst (run_remote (example_flags ''test'') False no_effect (example_world untrained_tree))
       \<noteq> None
   \<and> \<not> disable_cuda (fst (snd (run_remote (example_flags ''test'') False no_effect
         (example_world untrained_tree))))"
proof -
  let ?A = "run_remote (example_flags ''test'') False no_effect (example_world trained_tree)"
  let ?B = "run_remote (example_flags ''train'') True no_effect (example_world untrained_tree)"
  let ?C = "run_remote (example_flags ''test'') False no_effect (example_world untrained_tree)"
  have a: "?A = (fst ?A, fst (snd ?A), snd (snd ?A))"
    and b: "?B = (fst ?B, fst (snd ?B), snd (snd ?B))"
    and c: "?C = (fst ?C, fst (snd ?C), snd (snd ?C))" by simp_all
  have "\<not> disable_cuda (example_flags ''test'')" by (simp add: example_flags_def)
  with run_remote_disable_cuda [OF a] run_remote_disable_cuda [OF b] run_remote_disable_cuda [OF c]
    remote_test_run(1) remote_train_run(1) remote_test_raises
  show ?thesis by simp
qed

subsection \<open>The local test keeps its own flags\<close>

text \<open>
  Claim C9. \<^verbatim>\<open>test_local\<close> hands \<^verbatim>\<open>trace\<close> a copy of the flags. Whether or not
  the traced model was missing, when \<^verbatim>\<open>test_local\<close> returns its flags have mode
  \<^verbatim>\<open>test\<close>, \<^verbatim>\<open>cc_env_mode\<close> \<^verbatim>\<open>local\<close> and the log directories of mode
  \<^verbatim>\<open>test\<close>, and these are the flags pantheon_env was started with; when the traced
  model was missing, polybeast was started before with the copy, whose mode is
  \<^verbatim>\<open>trace\<close> and whose log directories are those of mode \<^verbatim>\<open>trace\<close>.
\<close>

theorem test_local_keeps_flags:
  assumes "test_local flags env w = (None, flags', w')"
  shows "mode flags' = ''test'' \<and> cc_env_mode flags' = ''local''
    \<and> logdir flags' = path_join (base_logdir flags) ''test''
    \<and> savedir flags' = path_join (path_join (base_logdir flags) ''test'') ''torchbeast''
    \<and> (if path_exists (fs w) (path_join (base_logdir flags) ''traced_model.pt'')
       then events w' = events w @ [Started Pantheon_env flags', Joined Pantheon_env]
       else \<exists>copied. events w' = events w @ [Started Polybeast copied, Joined Polybeast,
                                              Started Pantheon_env flags', Joined Pantheon_env]
              \<and> mode copied = ''trace''
              \<and> logdir copied = path_join (base_logdir flags) ''trace''
              \<and> savedir copied = path_join (path_join (base_logdir flags) ''trace'') ''torchbeast'')"
proof -
  from assms have "mode flags' = ''test'' \<and> cc_env_mode flags' = ''local''
    \<and> logdir flags' = path_join (base_logdir flags) ''test''
    \<and> savedir flags' = path_join (path_join (base_logdir flags) ''test'') ''torchbeast''"
  proof (cases rule: test_local_cases)
    case (traced flags1 t1 copied w1)
    from init_logdirs_ok_fields [OF traced(1)] traced(5) show ?thesis by simp
  next
    case (direct flags1 t1)
    from init_logdirs_ok_fields [OF direct(1)] direct(4) show ?thesis by simp
  qed simp_all
  with test_local_events [OF assms] show ?thesis by simp
qed

theorem test_local_keeps_flags_witness:
  "\<not> path_exists trained_tree ''logs/traced_model.pt''
   \<and> fst (test_local (example_flags ''test_local'') no_effect (example_world trained_tree)) = None
   \<and> mode (fst (snd (test_local (example_flags ''test_local'') no_effect
        (example_world trained_tree)))) = ''test''
   \<and> cc_env_mode (fst (snd (test_local (example_flags ''test_local'') no_effect
        (example_world trained_tree)))) = ''local''
   \<and> logdir (fst (snd (test_local (example_flags ''test_local'') no_effect
        (example_world trained_tree)))) = ''logs/test''
   \<and> (\<exists>copied. events (snd (snd (test_local (example_flags ''test_local'') no_effect
          (example_world trained_tree))))
        = [Started Polybeast copied, Joined Polybeast,
           Started Pantheon_env (fst (snd (test_local (example_flags ''test_local'') no_effect
             (example_world trained_tree)))),
           Joined Pantheon_env]
      \<and> mode copied = ''trace'' \<and> logdir copied = ''logs/trace'')"
proof -
  let ?T = "test_local (example_flags ''test_local'') no_effect (example_world trained_tree)"
  have t: "?T = (None, fst (snd ?T), snd (snd ?T))"
    using local_test_untraced(1) by (metis prod.collapse)
  from test_local_keeps_flags [OF t] example_traced_model(1) local_test_untraced(1)
  show ?thesis
    by (auto simp: example_world_sel example_flags_sel example_paths)
qed

subsection \<open>The abort comes after the cleanup\<close>

text \<open>
  Claim C10. When \<^verbatim>\<open>init_logdirs\<close> raises the assertion error, the mode is not
  \<^verbatim>\<open>train\<close>, the checkpoint is missing, and the tree has been changed already: the
  log directory holds the empty \<^verbatim>\<open>torchbeast\<close> directory and nothing of what it held
  before. The callers \<^verbatim>\<open>run_remote\<close>, \<^verbatim>\<open>test_local\<close> and \<^verbatim>\<open>trace\<close> pass the
  error on with this tree and with the log of process operations as it was: no process
  has been started.
\<close>

theorem init_logdirs_abort_after_cleanup:
  assumes "init_logdirs flags t = (Some (AssertionError msg), flags', t')"
  shows "mode flags \<noteq> ''train''
    \<and> checkpoint flags' = path_join (base_logdir flags) ''checkpoint.tar''
    \<and> \<not> path_exists t' (checkpoint flags')
    \<and> lookup t' (components (logdir flags')) = Some (Dir [''torchbeast'' \<mapsto> Dir Map.empty])
    \<and> lookup t' (components (savedir flags')) = Some (Dir Map.empty)
    \<and> (\<forall>flags0 env w. flags0\<lparr>mode := ''test''\<rparr> = flags \<and> fs w = t \<longrightarrow>
          run_remote flags0 False env w = (Some (AssertionError msg), flags', w\<lparr>fs := t'\<rparr>)
        \<and> test_local flags0 env w = (Some (AssertionError msg), flags', w\<lparr>fs := t'\<rparr>))
    \<and> (\<forall>flags0 env w. flags0\<lparr>mode := ''trace''\<rparr> = flags \<and> fs w = t \<longrightarrow>
          trace flags0 env w = (Some (AssertionError msg), flags', w\<lparr>fs := t'\<rparr>))"
proof -
  from assms have m: "mode flags \<noteq> ''train''"
    using init_logdirs_train_no_assert by blast
  from assms have "checkpoint flags' = path_join (base_logdir flags) ''checkpoint.tar''
    \<and> \<not> path_exists t' (checkpoint flags')"
    by (cases rule: init_logdirs_cases) (simp_all split: if_splits)
  moreover from init_logdirs_fresh [OF assms m]
  have "lookup t' (components (logdir flags')) = Some (Dir [''torchbeast'' \<mapsto> Dir Map.empty])
    \<and> lookup t' (components (savedir flags')) = Some (Dir Map.empty)"
    by simp
  moreover have "run_remote flags0 False env w = (Some (AssertionError msg), flags', w\<lparr>fs := t'\<rparr>)
        \<and> test_local flags0 env w = (Some (AssertionError msg), flags', w\<lparr>fs := t'\<rparr>)"
    if "flags0\<lparr>mode := ''test''\<rparr> = flags \<and> fs w = t" for flags0 env w
    using that assms run_remote_raises [where flags = flags0 and train = False and w = w]
      test_local_raises [where flags = flags0 and w = w]
    by simp
  moreover have "trace flags0 env w = (Some (AssertionError msg), flags', w\<lparr>fs := t'\<rparr>)"
    if "flags0\<lparr>mode := ''trace''\<rparr> = flags \<and> fs w = t" for flags0 env w
    using that assms trace_raises [where flags = flags0 and w = w] by simp
  ultimately show ?thesis using m by blast
qed

theorem init_logdirs_abort_after_cleanup_witness:
  "fst (init_logdirs (example_flags ''test'') untrained_tree)
     = Some (AssertionError ''Checkpoint logs/checkpoint.tar missing in test mode'')
   \<and> lookup untrained_tree [''logs'', ''test''] = Some (Dir [''old.log'' \<mapsto> File])
   \<and> lookup (snd (snd (init_logdirs (example_flags ''test'') untrained_tree))) [''logs'', ''test'']
     = Some (Dir [''torchbeast'' \<mapsto> Dir Map.empty])
   \<and> events (snd (snd (run_remote (example_flags ''test'') False no_effect
        (example_world untrained_tree)))) = []
   \<and> fs (snd (snd (run_remote (example_flags ''test'') False no_effect
        (example_world untrained_tree))))
     = snd (snd (init_logdirs (example_flags ''test'') untrained_tree))"
proof -
  let ?X = "init_logdirs (example_flags ''test'') untrained_tree"
  have r: "fst ?X = Some (AssertionError ''Checkpoint logs/checkpoint.tar missing in test mode'')"
    by (simp add: eval_defs)
  then have x: "?X = (Some (AssertionError ''Checkpoint logs/checkpoint.tar missing in test mode''),
      fst (snd ?X), snd (snd ?X))"
    by (metis prod.collapse)
  have lg: "components (logdir (fst (snd ?X))) = [''logs'', ''test'']"
    by (simp add: eval_defs)
  have old: "lookup untrained_tree [''logs'', ''test''] = Some (Dir [''old.log'' \<mapsto> File])"
    by (simp add: untrained_tree_def)
  have f: "(example_flags ''test'')\<lparr>mode := ''test''\<rparr> = example_flags ''test''"
    by (simp add: example_flags_def)
  from init_logdirs_abort_after_cleanup [OF x]
  have "lookup (snd (snd ?X)) [''logs'', ''test''] = Some (Dir [''torchbeast'' \<mapsto> Dir Map.empty])"
    and "run_remote (example_flags ''test'') False no_effect (example_world untrained_tree)
       = (Some (AssertionError ''Checkpoint logs/checkpoint.tar missing in test mode''),
          fst (snd ?X), (example_world untrained_tree)\<lparr>fs := snd (snd ?X)\<rparr>)"
    using lg f by (simp_all add: example_world_sel)
  with r old show ?thesis by (simp add: example_world_sel)
qed

end
